theory Spec2Isabelle
  imports Complex_Main
begin

section \<open>Python values and exceptions\<close>

text \<open>
  The gateway passes decoded JSON around as plain Python values (\<open>Dict[str, Any]\<close>).
  A dictionary is an association list; \<open>map_of\<close> is the lookup. Strings are byte
  lists, and case mapping is the ASCII one (paths, methods and addresses are ASCII).
\<close>

datatype json =
    JNull
  | JBool bool
  | JInt int
  | JFloat real
  | JStr string
  | JList "json list"
  | JObj "(string \<times> json) list"

text \<open>
  Exceptions are values. The classes are the ones some \<open>except\<close> clause of the
  gateway tells apart: \<open>ValueError\<close>, \<open>requests.exceptions.RequestException\<close> and
  every other \<open>Exception\<close>. The string is \<open>str(e)\<close>.
\<close>

datatype exn = ValueError string | RequestException string | OtherError string

fun exn_str :: "exn \<Rightarrow> string" where
  "exn_str (ValueError m) = m"
| "exn_str (RequestException m) = m"
| "exn_str (OtherError m) = m"

fun type_name :: "json \<Rightarrow> string" where
  "type_name JNull = ''NoneType''"
| "type_name (JBool b) = ''bool''"
| "type_name (JInt n) = ''int''"
| "type_name (JFloat x) = ''float''"
| "type_name (JStr s) = ''str''"
| "type_name (JList xs) = ''list''"
| "type_name (JObj kvs) = ''dict''"

definition attribute_error :: "json \<Rightarrow> string \<Rightarrow> exn" where
  "attribute_error v attr =
     OtherError ([CHR 0x27] @ type_name v @ [CHR 0x27] @ '' object has no attribute ''
                 @ [CHR 0x27] @ attr @ [CHR 0x27])"

text \<open>Truth value of a Python object, as \<open>if x:\<close>, \<open>not x\<close> and \<open>x or y\<close> use it.\<close>

fun truthy :: "json \<Rightarrow> bool" where
  "truthy JNull = False"
| "truthy (JBool b) = b"
| "truthy (JInt n) = (n \<noteq> 0)"
| "truthy (JFloat x) = (x \<noteq> 0)"
| "truthy (JStr s) = (s \<noteq> [])"
| "truthy (JList xs) = (xs \<noteq> [])"
| "truthy (JObj kvs) = (kvs \<noteq> [])"

text \<open>\<open>d.get(key, default)\<close>; on anything but a dict the attribute lookup raises.\<close>

fun dict_get :: "json \<Rightarrow> string \<Rightarrow> json \<Rightarrow> exn + json" where
  "dict_get (JObj kvs) k d = Inr (case map_of kvs k of Some v \<Rightarrow> v | None \<Rightarrow> d)"
| "dict_get v k d = Inl (attribute_error v ''get'')"

text \<open>\<open>d.keys()\<close>, which the logging lines call.\<close>

fun dict_keys :: "json \<Rightarrow> exn + string list" where
  "dict_keys (JObj kvs) = Inr (map fst kvs)"
| "dict_keys v = Inl (attribute_error v ''keys'')"

text \<open>\<open>len(x)\<close>.\<close>

fun py_len :: "json \<Rightarrow> exn + nat" where
  "py_len (JStr s) = Inr (length s)"
| "py_len (JList xs) = Inr (length xs)"
| "py_len (JObj kvs) = Inr (length kvs)"
| "py_len v = Inl (OtherError (''object of type '' @ [CHR 0x27] @ type_name v @ [CHR 0x27]
                               @ '' has no len()''))"

subsection \<open>Strings\<close>

fun startswith :: "string \<Rightarrow> string \<Rightarrow> bool" where
  "startswith s [] = True"
| "startswith [] (p # ps) = False"
| "startswith (c # s) (p # ps) = (c = p \<and> startswith s ps)"

definition endswith :: "string \<Rightarrow> string \<Rightarrow> bool" where
  "endswith s p = startswith (rev s) (rev p)"

text \<open>\<open>p in s\<close> on strings: \<open>p\<close> occurs in \<open>s\<close> as a contiguous substring.\<close>

fun contains :: "string \<Rightarrow> string \<Rightarrow> bool" where
  "contains p [] = (p = [])"
| "contains p (c # s) = (startswith (c # s) p \<or> contains p s)"

text \<open>\<open>s.rstrip("/")\<close> removes every trailing slash.\<close>

definition rstrip_slash :: "string \<Rightarrow> string" where
  "rstrip_slash s = rev (dropWhile (\<lambda>c. c = CHR ''/'') (rev s))"

definition lower_char :: "char \<Rightarrow> char" where
  "lower_char c =
     (case map_of (zip ''ABCDEFGHIJKLMNOPQRSTUVWXYZ'' ''abcdefghijklmnopqrstuvwxyz'') c of
        Some d \<Rightarrow> d | None \<Rightarrow> c)"

definition upper_char :: "char \<Rightarrow> char" where
  "upper_char c =
     (case map_of (zip ''abcdefghijklmnopqrstuvwxyz'' ''ABCDEFGHIJKLMNOPQRSTUVWXYZ'') c of
        Some d \<Rightarrow> d | None \<Rightarrow> c)"

definition lower :: "string \<Rightarrow> string" where
  "lower s = map lower_char s"

definition upper :: "string \<Rightarrow> string" where
  "upper s = map upper_char s"

text \<open>\<open>str(n)\<close> of an integer: decimal digits, with a minus sign below zero.\<close>

fun digits :: "nat \<Rightarrow> string" where
  "digits n =
     (if n < 10 then [''0123456789'' ! n]
      else digits (n div 10) @ [''0123456789'' ! (n mod 10)])"

declare digits.simps [simp del]

definition str_of_int :: "int \<Rightarrow> string" where
  "str_of_int i = (if i < 0 then CHR ''-'' # digits (nat (- i)) else digits (nat i))"

text \<open>\<open>bytes.hex()\<close>: two lower-case hexadecimal digits for each byte.\<close>

definition hex_of_byte :: "char \<Rightarrow> string" where
  "hex_of_byte c =
     (let n = of_char c :: nat
      in [''0123456789abcdef'' ! (n div 16), ''0123456789abcdef'' ! (n mod 16)])"

definition hex_of_bytes :: "string \<Rightarrow> string" where
  "hex_of_bytes bs = concat (map hex_of_byte bs)"

section \<open>x402 types (\<open>app/x402/types.py\<close>)\<close>

record PaymentRequirements =
  scheme :: string
  network :: string
  max_amount_required :: string
  resource :: string
  description :: string
  mime_type :: string
  pay_to :: string
  max_timeout_seconds :: int
  asset :: string
  output_schema :: "(string \<times> json) list option"
  extra :: "(string \<times> json) list"

text \<open>
  \<open>PaymentRequirements.to_dict\<close>: the nine fixed keys, then \<open>outputSchema\<close> and
  \<open>extra\<close> when they are truthy (present and not empty).
\<close>

definition to_dict :: "PaymentRequirements \<Rightarrow> json" where
  "to_dict r =
     JObj ([(''scheme'', JStr (scheme r)),
            (''network'', JStr (network r)),
            (''maxAmountRequired'', JStr (max_amount_required r)),
            (''resource'', JStr (resource r)),
            (''description'', JStr (description r)),
            (''mimeType'', JStr (mime_type r)),
            (''payTo'', JStr (pay_to r)),
            (''maxTimeoutSeconds'', JInt (max_timeout_seconds r)),
            (''asset'', JStr (asset r))]
           @ (case output_schema r of
                Some s \<Rightarrow> (if s \<noteq> [] then [(''outputSchema'', JObj s)] else [])
              | None \<Rightarrow> [])
           @ (if extra r \<noteq> [] then [(''extra'', JObj (extra r))] else []))"

record RouteConfig =
  cfg_network :: string
  cfg_asset :: string
  cfg_max_amount_required :: string
  cfg_description :: string
  cfg_mime_type :: string
  cfg_max_timeout_seconds :: int
  cfg_output_schema :: "(string \<times> json) list option"
  cfg_extra :: "(string \<times> json) list"

section \<open>Requests, responses and the middleware object\<close>

text \<open>
  A request is its method, \<open>request.url.path\<close> and its headers; Starlette looks
  headers up case-insensitively, so the map is keyed by the lower-case name. Of a
  response the status code, the body and the headers are kept; the headers the
  framework adds on its own are left out.
\<close>

record request =
  req_method :: string
  req_path :: string
  req_headers :: "string \<rightharpoonup> string"

datatype body = JsonBody json | RawBody string

record response =
  status_code :: int
  content :: body
  resp_headers :: "string \<rightharpoonup> string"

record FacilitatorService =
  rpc_url :: string
  facilitator_url :: string

record X402PaywallMiddleware =
  mw_pay_to :: string
  routes :: "string \<rightharpoonup> RouteConfig"
  facilitator_service :: FacilitatorService
  skip_paths :: "string list"

text \<open>\<open>__init__\<close> keeps the given skip list unless it is missing or empty.\<close>

definition init_skip_paths :: "string list option \<Rightarrow> string list" where
  "init_skip_paths sp =
     (case sp of
        Some xs \<Rightarrow> (if xs \<noteq> [] then xs
                    else [''/.well-known/agent.json'', ''/.well-known/agent-card.json''])
      | None \<Rightarrow> [''/.well-known/agent.json'', ''/.well-known/agent-card.json''])"

definition absolute_resource_url :: "request \<Rightarrow> string" where
  "absolute_resource_url req =
     (let scheme = (case req_headers req ''x-forwarded-proto'' of Some s \<Rightarrow> s | None \<Rightarrow> ''http'');
          host = (case req_headers req ''host'' of Some h \<Rightarrow> h | None \<Rightarrow> ''localhost'');
          url_path = takeWhile (\<lambda>c. c \<noteq> CHR ''?'') (req_path req)
      in scheme @ ''://'' @ host @ url_path)"

definition to_payment_requirements ::
  "string \<Rightarrow> string \<Rightarrow> RouteConfig \<Rightarrow> PaymentRequirements" where
  "to_payment_requirements resource_url payto config =
     \<lparr> scheme = ''exact'',
       network = cfg_network config,
       max_amount_required = cfg_max_amount_required config,
       resource = resource_url,
       description = cfg_description config,
       mime_type = cfg_mime_type config,
       pay_to = payto,
       max_timeout_seconds = cfg_max_timeout_seconds config,
       asset = cfg_asset config,
       output_schema = cfg_output_schema config,
       extra = cfg_extra config \<rparr>"

text \<open>\<open>_should_skip_payment\<close>: the loop returns at the first skip path that fits.\<close>

fun should_skip_paths :: "string list \<Rightarrow> string \<Rightarrow> bool" where
  "should_skip_paths [] path = False"
| "should_skip_paths (skip_path # rest) path =
     (if endswith path skip_path \<or> contains skip_path path then True
      else should_skip_paths rest path)"

definition should_skip_payment :: "X402PaywallMiddleware \<Rightarrow> string \<Rightarrow> bool" where
  "should_skip_payment mw path = should_skip_paths (skip_paths mw) path"

definition normalize_path :: "string \<Rightarrow> string" where
  "normalize_path path =
     (let normalized_path = (if rstrip_slash path = [] then ''/'' else rstrip_slash path)
      in if \<not> startswith normalized_path ''/'' then ''/'' @ normalized_path
         else normalized_path)"

definition get_route_config ::
  "X402PaywallMiddleware \<Rightarrow> string \<Rightarrow> string \<Rightarrow> RouteConfig option" where
  "get_route_config mw method path =
     (let normalized_path = normalize_path path;
          route_key = upper method @ '' '' @ normalized_path;
          route_key_slash = upper method @ '' '' @ normalized_path @ ''/''
      in case routes mw route_key of
           Some config \<Rightarrow> Some config
         | None \<Rightarrow>
             (case routes mw route_key_slash of
                Some config \<Rightarrow> Some config
              | None \<Rightarrow>
                  if upper method = ''POST'' then routes mw ''POST /'' else None))"

text \<open>
  \<open>_create_payment_required_response\<close>: the error is added only when it is truthy.
\<close>

definition create_payment_required_response ::
  "PaymentRequirements \<Rightarrow> json option \<Rightarrow> response" where
  "create_payment_required_response requirements error =
     \<lparr> status_code = 402,
       content = JsonBody (JObj ([(''x402Version'', JInt 1),
                                  (''accepts'', JList [to_dict requirements])]
                                 @ (case error of
                                      Some e \<Rightarrow> (if truthy e then [(''error'', e)] else [])
                                    | None \<Rightarrow> []))),
       resp_headers = Map.empty \<rparr>"

section \<open>Library and world\<close>

text \<open>
  What the interpreter, the standard library, \<open>requests\<close> and the Aptos SDK do is
  not code of the gateway: it is taken as a parameter. A library call either returns
  or raises, so each one has a sum as its result.
\<close>

datatype sdk_value = SInt int | SBool bool | SStr string | SOther string

text \<open>
  The object the SDK's deserializer hands back, as far as the verifier looks at it.
  An attribute that \<open>hasattr\<close> or \<open>getattr(..., None)\<close> probes is an option.
  \<open>SOther s\<close> is any argument that is neither an \<open>int\<close> nor a \<open>str\<close>, with
  \<open>s\<close> its \<open>str()\<close>.
\<close>

record EntryFunction =
  ef_function :: "string option"
  ef_arguments :: "sdk_value list option"

record TransactionPayload =
  payload_value :: "EntryFunction option"

record RawTransaction =
  sender :: string
  sequence_number :: int
  expiration_timestamp_secs :: "int option"
  payload :: TransactionPayload

record http_response =
  http_status_code :: int
  http_text :: string
  http_json :: "exn + json"

record pylib =
  b64decode :: "string \<Rightarrow> exn + string"
  utf8_decode :: "string \<Rightarrow> exn + string"
  json_loads :: "string \<Rightarrow> exn + json"
  int_of_str :: "string \<Rightarrow> exn + int"
  json_dumps :: "json \<Rightarrow> exn + string"
  utf8_encode :: "string \<Rightarrow> exn + string"
  b64encode :: "string \<Rightarrow> string"
  aptos_sdk_available :: bool
  deserialize :: "string \<Rightarrow> exn + RawTransaction"

text \<open>
  The world of one request: the clock reading \<open>int(time.time())\<close>, the answer of
  the network to the \<open>n\<close>-th POST of this request (\<open>n\<close> counts the earlier ones),
  and the downstream handler.
\<close>

record world =
  time_now :: int
  requests_post :: "nat \<Rightarrow> string \<Rightarrow> json \<Rightarrow> exn + http_response"
  call_next :: "request \<Rightarrow> exn + response"

datatype event =
    VerifyCall
  | SettleCall
  | HttpPost string json
  | Sleep int
  | HandlerCall

fun is_post :: "event \<Rightarrow> bool" where
  "is_post (HttpPost url b) = True"
| "is_post ev = False"

definition posts_made :: "event list \<Rightarrow> nat" where
  "posts_made evs = length (filter is_post evs)"

definition try_bind :: "exn + 'a \<Rightarrow> ('a \<Rightarrow> exn + 'b) \<Rightarrow> exn + 'b" where
  "try_bind m f = (case m of Inl e \<Rightarrow> Inl e | Inr v \<Rightarrow> f v)"

text \<open>\<open>x.lower()\<close>, \<open>int(x)\<close> and \<open>base64.b64decode(x)\<close> on a value of any type.\<close>

fun py_lower :: "json \<Rightarrow> exn + string" where
  "py_lower (JStr s) = Inr (lower s)"
| "py_lower v = Inl (attribute_error v ''lower'')"

fun py_int :: "pylib \<Rightarrow> json \<Rightarrow> exn + int" where
  "py_int L (JInt n) = Inr n"
| "py_int L (JBool b) = Inr (if b then 1 else 0)"
| "py_int L (JFloat x) = Inr (if 0 \<le> x then \<lfloor>x\<rfloor> else \<lceil>x\<rceil>)"
| "py_int L (JStr s) = int_of_str L s"
| "py_int L v =
     Inl (OtherError (''int() argument must be a string, a bytes-like object or a real number, not ''
                      @ [CHR 0x27] @ type_name v @ [CHR 0x27]))"

fun py_b64decode :: "pylib \<Rightarrow> json \<Rightarrow> exn + string" where
  "py_b64decode L (JStr s) = b64decode L s"
| "py_b64decode L v =
     Inl (OtherError (''argument should be a bytes-like object or ASCII string, not ''
                      @ [CHR 0x27] @ type_name v @ [CHR 0x27]))"

text \<open>\<open>a or b\<close>, with \<open>b\<close> evaluated only when \<open>a\<close> is falsy.\<close>

definition py_or :: "exn + json \<Rightarrow> exn + json \<Rightarrow> exn + json" where
  "py_or a b = try_bind a (\<lambda>x. if truthy x then Inr x else b)"

section \<open>Facilitator service (\<open>app/facilitator/service.py\<close>)\<close>

definition invalid_result :: "json \<Rightarrow> json" where
  "invalid_result reason = JObj [(''isValid'', JBool False), (''invalidReason'', reason)]"

definition valid_result :: "json \<Rightarrow> json" where
  "valid_result payer = JObj [(''isValid'', JBool True), (''payer'', payer)]"

definition failure_result :: "json \<Rightarrow> json" where
  "failure_result err = JObj [(''success'', JBool False), (''error'', err)]"

subsection \<open>\<open>_verify_with_aptos_sdk\<close>\<close>

fun sdk_str :: "sdk_value \<Rightarrow> string" where
  "sdk_str (SInt n) = str_of_int n"
| "sdk_str (SBool b) = (if b then ''True'' else ''False'')"
| "sdk_str (SStr s) = s"
| "sdk_str (SOther s) = s"

text \<open>\<open>int(args[1]) if isinstance(args[1], (int, str)) else 0\<close>\<close>

fun sdk_amount :: "pylib \<Rightarrow> sdk_value \<Rightarrow> exn + int" where
  "sdk_amount L (SInt n) = Inr n"
| "sdk_amount L (SBool b) = Inr (if b then 1 else 0)"
| "sdk_amount L (SStr s) = int_of_str L s"
| "sdk_amount L (SOther s) = Inr 0"

text \<open>The three reads of the requirements, in the order of the source.\<close>

definition requirement_fields :: "pylib \<Rightarrow> json \<Rightarrow> exn + (string \<times> int \<times> int)" where
  "requirement_fields L payment_requirements =
     try_bind (try_bind (dict_get payment_requirements ''payTo'' (JStr [])) py_lower)
       (\<lambda>required_pay_to.
     try_bind (try_bind (dict_get payment_requirements ''maxAmountRequired'' (JStr ''0''))
                 (py_int L))
       (\<lambda>required_amount.
     try_bind (try_bind (dict_get payment_requirements ''maxTimeoutSeconds'' (JInt 600))
                 (py_int L))
       (\<lambda>max_timeout.
     Inr (required_pay_to, required_amount, max_timeout))))"

text \<open>The expiry block: a rejection, or nothing when the checks pass or are skipped.\<close>

definition expiration_check :: "int option \<Rightarrow> int \<Rightarrow> int \<Rightarrow> json option" where
  "expiration_check expiration current_time max_timeout =
     (case expiration of
        None \<Rightarrow> None
      | Some ts \<Rightarrow>
          if ts < current_time
          then Some (invalid_result (JStr ''Transaction has expired''))
          else if ts > current_time + max_timeout
          then Some (invalid_result (JStr ''Transaction expiration exceeds maximum timeout''))
          else None)"

definition is_coin_transfer :: "string \<Rightarrow> bool" where
  "is_coin_transfer function_str =
     (contains ''coin::transfer'' function_str
      \<or> contains ''aptos_account::transfer'' function_str)"

text \<open>
  The payload block. Both arguments are read before either comparison, so a string
  amount that \<open>int\<close> refuses raises before the recipient is looked at.
\<close>

definition transfer_check ::
  "pylib \<Rightarrow> TransactionPayload \<Rightarrow> string \<Rightarrow> int \<Rightarrow> exn + json option" where
  "transfer_check L pl required_pay_to required_amount =
     (case payload_value pl of
        None \<Rightarrow> Inr None
      | Some entry_function \<Rightarrow>
         (case ef_function entry_function of
            None \<Rightarrow> Inr None
          | Some function_str \<Rightarrow>
              if is_coin_transfer function_str then
                (case ef_arguments entry_function of
                   None \<Rightarrow> Inr None
                 | Some args \<Rightarrow>
                     if args \<noteq> [] \<and> length args \<ge> 2 then
                       (let recipient = lower (sdk_str (args ! 0))
                        in try_bind (sdk_amount L (args ! 1)) (\<lambda>amount.
                             if recipient \<noteq> required_pay_to then
                               Inr (Some (invalid_result (JStr
                                 (''Recipient mismatch: expected '' @ required_pay_to
                                  @ '', got '' @ recipient))))
                             else if amount < required_amount then
                               Inr (Some (invalid_result (JStr
                                 (''Amount insufficient: required '' @ str_of_int required_amount
                                  @ '', got '' @ str_of_int amount))))
                             else Inr None))
                     else Inr None)
              else Inr None))"

definition sdk_verify_body :: "pylib \<Rightarrow> int \<Rightarrow> string \<Rightarrow> json \<Rightarrow> exn + json" where
  "sdk_verify_body L current_time transaction_bytes payment_requirements =
     try_bind (deserialize L transaction_bytes) (\<lambda>raw_transaction.
     try_bind (requirement_fields L payment_requirements)
       (\<lambda>(required_pay_to, required_amount, max_timeout).
          case expiration_check (expiration_timestamp_secs raw_transaction)
                 current_time max_timeout of
            Some rejection \<Rightarrow> Inr rejection
          | None \<Rightarrow>
              try_bind (transfer_check L (payload raw_transaction)
                          required_pay_to required_amount)
                (\<lambda>r. case r of
                        Some rejection \<Rightarrow> Inr rejection
                      | None \<Rightarrow> Inr (valid_result (JStr (sender raw_transaction))))))"

definition verify_with_aptos_sdk :: "pylib \<Rightarrow> int \<Rightarrow> string \<Rightarrow> json \<Rightarrow> json" where
  "verify_with_aptos_sdk L current_time transaction_bytes payment_requirements =
     (case sdk_verify_body L current_time transaction_bytes payment_requirements of
        Inl e \<Rightarrow> invalid_result (JStr (''SDK verification error: '' @ exn_str e))
      | Inr result \<Rightarrow> result)"

subsection \<open>RPC fallback: \<open>_simulate_transaction\<close> and \<open>_verify_with_rpc\<close>\<close>

text \<open>
  What \<open>_simulate_transaction\<close> makes of the node's answer. On a body that is not a
  JSON object the membership test or the lookup raises, and the handler of the
  function turns the exception into a failure.
\<close>

definition simulation_outcome :: "http_response \<Rightarrow> exn + json" where
  "simulation_outcome resp =
     (if http_status_code resp = 200 then
        try_bind (http_json resp) (\<lambda>res.
          case res of
            JObj kvs \<Rightarrow>
              (case map_of kvs ''result'' of
                 Some v \<Rightarrow> Inr (JObj [(''success'', JBool True), (''result'', v)])
               | None \<Rightarrow>
                   Inr (failure_result
                         (case map_of kvs ''error'' of
                            Some e \<Rightarrow> e | None \<Rightarrow> JStr ''Unknown error'')))
          | JList xs \<Rightarrow>
              if JStr ''result'' \<in> set xs
              then Inl (OtherError ''list indices must be integers or slices, not str'')
              else Inl (attribute_error res ''get'')
          | JStr s \<Rightarrow>
              if contains ''result'' s
              then Inl (OtherError (''string indices must be integers, not ''
                                    @ [CHR 0x27] @ ''str'' @ [CHR 0x27]))
              else Inl (attribute_error res ''get'')
          | _ \<Rightarrow>
              Inl (OtherError (''argument of type '' @ [CHR 0x27] @ type_name res
                               @ [CHR 0x27] @ '' is not iterable'')))
      else Inr (failure_result (JStr (''HTTP '' @ str_of_int (http_status_code resp)))))"

definition simulate_transaction ::
  "world \<Rightarrow> FacilitatorService \<Rightarrow> event list \<Rightarrow> string \<Rightarrow> json \<times> event list" where
  "simulate_transaction W svc evs transaction_bytes =
     (let tx_hex = ''0x'' @ hex_of_bytes transaction_bytes;
          request_body = JObj [(''jsonrpc'', JStr ''2.0''),
                               (''id'', JInt 1),
                               (''method'', JStr ''transaction.simulate''),
                               (''params'', JList [JStr tx_hex])];
          evs1 = evs @ [HttpPost (rpc_url svc) request_body]
      in case try_bind (requests_post W (posts_made evs) (rpc_url svc) request_body)
                simulation_outcome of
           Inl e \<Rightarrow> (failure_result (JStr (exn_str e)), evs1)
         | Inr r \<Rightarrow> (r, evs1))"

definition verify_with_rpc ::
  "world \<Rightarrow> FacilitatorService \<Rightarrow> event list \<Rightarrow> string \<Rightarrow> json
     \<Rightarrow> (exn + json) \<times> event list" where
  "verify_with_rpc W svc evs transaction_bytes payment_requirements =
     (case simulate_transaction W svc evs transaction_bytes of
        (simulate_response, evs1) \<Rightarrow>
          (try_bind (dict_get simulate_response ''success'' JNull) (\<lambda>ok.
             if \<not> truthy ok then
               try_bind (dict_get simulate_response ''error''
                           (JStr ''Transaction simulation failed''))
                 (\<lambda>e. Inr (invalid_result e))
             else
               try_bind (dict_get simulate_response ''result'' (JObj [])) (\<lambda>res.
               try_bind (py_or (dict_get res ''sender'' JNull)
                           (try_bind (dict_get res ''transaction'' (JObj []))
                              (\<lambda>t. dict_get t ''sender'' JNull)))
                 (\<lambda>sndr.
                    if \<not> truthy sndr
                    then Inr (invalid_result (JStr ''Could not extract sender from transaction''))
                    else Inr (valid_result sndr)))),
           evs1))"

subsection \<open>\<open>verify_transaction_on_chain\<close> and \<open>verify_payment\<close>\<close>

definition verify_transaction_on_chain ::
  "pylib \<Rightarrow> world \<Rightarrow> FacilitatorService \<Rightarrow> event list \<Rightarrow> json \<Rightarrow> json
     \<Rightarrow> json \<times> event list" where
  "verify_transaction_on_chain L W svc evs transaction_bcs payment_requirements =
     (case py_b64decode L transaction_bcs of
        Inl e \<Rightarrow> (invalid_result (JStr (''Verification error: '' @ exn_str e)), evs)
      | Inr transaction_bytes \<Rightarrow>
          if aptos_sdk_available L then
            (verify_with_aptos_sdk L (time_now W) transaction_bytes payment_requirements, evs)
          else
            (case verify_with_rpc W svc evs transaction_bytes payment_requirements of
               (Inl e, evs1) \<Rightarrow>
                 (invalid_result (JStr (''Verification error: '' @ exn_str e)), evs1)
             | (Inr r, evs1) \<Rightarrow> (r, evs1)))"

definition verify_payment ::
  "pylib \<Rightarrow> world \<Rightarrow> FacilitatorService \<Rightarrow> event list \<Rightarrow> json \<Rightarrow> json \<Rightarrow> json
     \<Rightarrow> json \<times> event list" where
  "verify_payment L W svc evs x402_version payment_payload payment_requirements =
     (let evs0 = evs @ [VerifyCall]
      in case py_or (dict_get payment_payload ''transaction'' JNull)
                    (dict_get payment_payload ''transactionBcsBase64'' JNull) of
           Inl e \<Rightarrow> (invalid_result (JStr (''Verification failed: '' @ exn_str e)), evs0)
         | Inr transaction_bcs \<Rightarrow>
             if \<not> truthy transaction_bcs
             then (invalid_result (JStr ''Transaction not found in payment payload''), evs0)
             else verify_transaction_on_chain L W svc evs0 transaction_bcs
                    payment_requirements)"

subsection \<open>\<open>settle_payment\<close>\<close>

text \<open>
  What \<open>settle_payment\<close> makes of the remote facilitator's answer: the JSON body
  of a 200 as it is; otherwise a failure whose error is read off the body, and the
  bare \<open>except\<close> falls back to the status line with the first 500 characters.
\<close>

definition settle_response :: "http_response \<Rightarrow> exn + json" where
  "settle_response resp =
     (if http_status_code resp = 200 then http_json resp
      else Inr (failure_result
             (case try_bind (http_json resp) (\<lambda>error_body.
                     try_bind (dict_get error_body ''message'' (JStr ''Unknown error''))
                       (\<lambda>m. dict_get error_body ''error'' m)) of
                Inr error_msg \<Rightarrow> error_msg
              | Inl e \<Rightarrow> JStr (''HTTP '' @ str_of_int (http_status_code resp) @ '': ''
                              @ take 500 (http_text resp)))))"

fun settle_exception :: "exn \<Rightarrow> json" where
  "settle_exception (RequestException m) =
     failure_result (JStr (''Facilitator request failed: '' @ m))"
| "settle_exception e = failure_result (JStr (''Settlement failed: '' @ exn_str e))"

definition settle_payment ::
  "world \<Rightarrow> FacilitatorService \<Rightarrow> event list \<Rightarrow> json \<Rightarrow> json \<Rightarrow> json
     \<Rightarrow> json \<times> event list" where
  "settle_payment W svc evs x402_version payment_payload payment_requirements =
     (let settle_url = facilitator_url svc @ ''/settle'';
          request_body = JObj [(''x402Version'', x402_version),
                               (''paymentPayload'', payment_payload),
                               (''paymentRequirements'', payment_requirements)];
          evs0 = evs @ [SettleCall]
      in case try_bind (dict_keys payment_payload) (\<lambda>ks. dict_keys payment_requirements) of
           Inl e \<Rightarrow> (settle_exception e, evs0)
         | Inr ks \<Rightarrow>
             (case try_bind (requests_post W (posts_made evs0) settle_url request_body)
                     settle_response of
                Inl e \<Rightarrow> (settle_exception e, evs0 @ [HttpPost settle_url request_body])
              | Inr r \<Rightarrow> (r, evs0 @ [HttpPost settle_url request_body])))"

section \<open>The paywall middleware (\<open>app/x402/middleware.py\<close>)\<close>

definition decode_payment_header :: "pylib \<Rightarrow> string \<Rightarrow> exn + json" where
  "decode_payment_header L payment_header =
     (case try_bind (b64decode L payment_header) (\<lambda>decoded_bytes.
             try_bind (utf8_decode L decoded_bytes) (json_loads L)) of
        Inl e \<Rightarrow> Inl (ValueError (''Failed to decode payment header: '' @ exn_str e))
      | Inr v \<Rightarrow> Inr v)"

text \<open>
  \<open>request.headers.get("x-payment") or request.headers.get("x-402")\<close>; the test
  \<open>if not x_payment_header\<close> then treats an empty value like a missing one.
\<close>

definition payment_header :: "request \<Rightarrow> string option" where
  "payment_header req =
     (case req_headers req ''x-payment'' of
        Some v \<Rightarrow> (if v \<noteq> [] then Some v else req_headers req ''x-402'')
      | None \<Rightarrow> req_headers req ''x-402'')"

text \<open>
  The reads between decoding and verification, logging lines included since they
  raise on a payload of the wrong shape. The result is the protocol version and the
  payload body handed to the facilitator.
\<close>

definition logged_length :: "json \<Rightarrow> string \<Rightarrow> exn + nat" where
  "logged_length payment_data k =
     (case payment_data of
        JObj kvs \<Rightarrow>
          (case map_of kvs k of Some v \<Rightarrow> py_len v | None \<Rightarrow> Inr 0)
      | _ \<Rightarrow> Inr 0)"

definition extract_payment_data :: "json \<Rightarrow> exn + (json \<times> json)" where
  "extract_payment_data payment_payload =
     try_bind (dict_get payment_payload ''scheme'' JNull) (\<lambda>logged.
     try_bind (try_bind (dict_get payment_payload ''scheme'' (JStr ''exact'')) py_lower)
       (\<lambda>schm.
     try_bind (dict_get payment_payload ''payload'' payment_payload) (\<lambda>payment_data.
     try_bind (dict_keys payment_data) (\<lambda>ks1.
     try_bind (logged_length payment_data ''transaction'') (\<lambda>n1.
     try_bind (logged_length payment_data ''signature'') (\<lambda>n2.
     try_bind (dict_get payment_payload ''x402Version'' (JInt 1)) (\<lambda>x402_version.
       Inr (x402_version, payment_data))))))))"

text \<open>The receipt header: \<open>b64encode(json.dumps(settle_result).encode("utf-8"))\<close>.\<close>

definition encode_receipt :: "pylib \<Rightarrow> json \<Rightarrow> exn + string" where
  "encode_receipt L settle_result =
     try_bind (json_dumps L settle_result) (\<lambda>s.
     try_bind (utf8_encode L s) (\<lambda>bs. Inr (b64encode L bs)))"

text \<open>The handler call and what follows it inside the \<open>try\<close> block.\<close>

definition forward_with_receipt ::
  "pylib \<Rightarrow> world \<Rightarrow> request \<Rightarrow> event list \<Rightarrow> json \<Rightarrow> (exn + response) \<times> event list" where
  "forward_with_receipt L W req evs settle_result =
     (try_bind (call_next W req) (\<lambda>resp.
        try_bind (encode_receipt L settle_result) (\<lambda>receipt.
          Inr (resp\<lparr>resp_headers := (resp_headers resp)(''x-payment-response'' \<mapsto> receipt)\<rparr>))),
      evs @ [HandlerCall])"

text \<open>Settlement with its single retry, then the handler.\<close>

definition settle_and_forward ::
  "pylib \<Rightarrow> world \<Rightarrow> X402PaywallMiddleware \<Rightarrow> request \<Rightarrow> PaymentRequirements
     \<Rightarrow> event list \<Rightarrow> json \<Rightarrow> json \<Rightarrow> (exn + response) \<times> event list" where
  "settle_and_forward L W mw req requirements evs x402_version payment_data =
     (case settle_payment W (facilitator_service mw) evs x402_version payment_data
             (to_dict requirements) of
        (settle_result1, evs1) \<Rightarrow>
          (case dict_get settle_result1 ''success'' JNull of
             Inl e \<Rightarrow> (Inl e, evs1)
           | Inr success1 \<Rightarrow>
               (case (if \<not> truthy success1
                      then settle_payment W (facilitator_service mw) (evs1 @ [Sleep 1])
                             x402_version payment_data (to_dict requirements)
                      else (settle_result1, evs1)) of
                  (settle_result, evs2) \<Rightarrow>
                    (case dict_get settle_result ''success'' JNull of
                       Inl e \<Rightarrow> (Inl e, evs2)
                     | Inr success2 \<Rightarrow>
                         if \<not> truthy success2 then
                           (case dict_get settle_result ''error'' (JStr ''Settlement failed'') of
                              Inl e \<Rightarrow> (Inl e, evs2)
                            | Inr settle_error \<Rightarrow>
                                (Inr (create_payment_required_response requirements
                                        (Some settle_error)), evs2))
                         else forward_with_receipt L W req evs2 settle_result))))"

text \<open>The body of the \<open>try\<close> block of \<open>dispatch\<close>.\<close>

definition dispatch_try ::
  "pylib \<Rightarrow> world \<Rightarrow> X402PaywallMiddleware \<Rightarrow> request \<Rightarrow> PaymentRequirements
     \<Rightarrow> string \<Rightarrow> (exn + response) \<times> event list" where
  "dispatch_try L W mw req requirements x_payment_header =
     (case try_bind (decode_payment_header L x_payment_header) extract_payment_data of
        Inl e \<Rightarrow> (Inl e, [])
      | Inr (x402_version, payment_data) \<Rightarrow>
          (case verify_payment L W (facilitator_service mw) [] x402_version payment_data
                  (to_dict requirements) of
             (verify_result, evs) \<Rightarrow>
               (case dict_get verify_result ''isValid'' JNull of
                  Inl e \<Rightarrow> (Inl e, evs)
                | Inr is_valid \<Rightarrow>
                    if \<not> truthy is_valid then
                      (case dict_get verify_result ''invalidReason'' (JStr ''Invalid payment'') of
                         Inl e \<Rightarrow> (Inl e, evs)
                       | Inr invalid_reason \<Rightarrow>
                           (Inr (create_payment_required_response requirements
                                   (Some invalid_reason)), evs))
                    else settle_and_forward L W mw req requirements evs
                           x402_version payment_data)))"

text \<open>The two \<open>except\<close> clauses of \<open>dispatch\<close>.\<close>

fun dispatch_except :: "PaymentRequirements \<Rightarrow> exn \<Rightarrow> response" where
  "dispatch_except requirements (ValueError m) =
     create_payment_required_response requirements
       (Some (JStr (''Invalid payment header: '' @ m)))"
| "dispatch_except requirements e =
     create_payment_required_response requirements
       (Some (JStr (''Payment verification error: '' @ exn_str e)))"

definition dispatch ::
  "pylib \<Rightarrow> world \<Rightarrow> X402PaywallMiddleware \<Rightarrow> request \<Rightarrow> (exn + response) \<times> event list" where
  "dispatch L W mw req =
     (if should_skip_payment mw (req_path req) then (call_next W req, [HandlerCall])
      else
        (case get_route_config mw (req_method req) (req_path req) of
           None \<Rightarrow> (call_next W req, [HandlerCall])
         | Some route_config \<Rightarrow>
             (let resource_url = absolute_resource_url req;
                  requirements = to_payment_requirements resource_url (mw_pay_to mw) route_config
              in case payment_header req of
                   None \<Rightarrow> (Inr (create_payment_required_response requirements None), [])
                 | Some x_payment_header \<Rightarrow>
                     if x_payment_header = []
                     then (Inr (create_payment_required_response requirements None), [])
                     else
                       (case dispatch_try L W mw req requirements x_payment_header of
                          (Inl e, evs) \<Rightarrow> (Inr (dispatch_except requirements e), evs)
                        | (Inr resp, evs) \<Rightarrow> (Inr resp, evs)))))"

section \<open>The specification's wording of route lookup\<close>



section \<open>Scenarios\<close>

text \<open>
  Concrete configurations and requests used to instantiate the theorems: the route
  of Scenario A, a registry that also lists a discovery document and the POST
  wildcard, and a handler that answers 200.
\<close>

definition example_config :: RouteConfig where
  "example_config =
     \<lparr> cfg_network = ''movement'',
       cfg_asset = ''0x1::aptos_coin::AptosCoin'',
       cfg_max_amount_required = ''100000000'',
       cfg_description = ''Premium Chat access'',
       cfg_mime_type = ''application/json'',
       cfg_max_timeout_seconds = 600,
       cfg_output_schema = None,
       cfg_extra = [] \<rparr>"

definition example_service :: FacilitatorService where
  "example_service =
     \<lparr> rpc_url = ''https://mainnet.movementnetwork.xyz/v1'',
       facilitator_url = ''http://localhost:3000/api/facilitator'' \<rparr>"

definition example_middleware :: X402PaywallMiddleware where
  "example_middleware =
     \<lparr> mw_pay_to = ''0xabc'',
       routes = [''POST /api/premium'' \<mapsto> example_config,
                 ''GET /.well-known/agent.json'' \<mapsto> example_config,
                 ''POST /'' \<mapsto> example_config],
       facilitator_service = example_service,
       skip_paths = init_skip_paths None \<rparr>"

definition example_page :: response where
  "example_page = \<lparr> status_code = 200, content = RawBody ''ok'', resp_headers = Map.empty \<rparr>"

definition example_request :: "string \<Rightarrow> string \<Rightarrow> (string \<rightharpoonup> string) \<Rightarrow> request" where
  "example_request m p hs = \<lparr> req_method = m, req_path = p, req_headers = hs \<rparr>"

text \<open>
  A library that answers the calls of the scenarios. The header is the base64 text
  of \<open>{"transaction":"AA=="}\<close>, and \<open>AA==\<close> is the base64 text of one zero byte.
  Without the SDK the verifier takes the RPC path; \<open>sdk_lib raw\<close> is the same
  library with the SDK present, decoding to the transaction \<open>raw\<close>.
\<close>

definition example_header :: string where
  "example_header = ''eyJ0cmFuc2FjdGlvbiI6IkFBPT0ifQ==''"

definition example_header_text :: string where
  \<open>example_header_text = ''{"transaction":"AA=="}''\<close>

definition example_lib :: pylib where
  \<open>example_lib =
     \<lparr> b64decode = (\<lambda>s. if s = example_header then Inr example_header_text
                         else if s = ''AA=='' then Inr [CHR 0x00]
                         else Inl (OtherError ''Incorrect padding'')),
       utf8_decode = (\<lambda>bs. Inr bs),
       json_loads = (\<lambda>s. if s = example_header_text
                          then Inr (JObj [(''transaction'', JStr ''AA=='')])
                          else Inl (ValueError ''Expecting value: line 1 column 1 (char 0)'')),
       int_of_str = (\<lambda>s. if s = ''100000000'' then Inr 100000000
                          else Inl (ValueError (''invalid literal for int() with base 10: ''
                                                @ [CHR 0x27] @ s @ [CHR 0x27]))),
       json_dumps = (\<lambda>v. if v = JObj [(''success'', JBool True), (''txHash'', JStr ''0x1'')]
                          then Inr ''{"success": true, "txHash": "0x1"}''
                          else Inl (OtherError ''Object is not JSON serializable'')),
       utf8_encode = (\<lambda>s. Inr s),
       b64encode = (\<lambda>bs. if bs = ''{"success": true, "txHash": "0x1"}''
                          then ''eyJzdWNjZXNzIjogdHJ1ZSwgInR4SGFzaCI6ICIweDEifQ==''
                          else []),
       aptos_sdk_available = False,
       deserialize = (\<lambda>bs. Inl (OtherError ''unexpected end of input'')) \<rparr>\<close>

definition sdk_lib :: "RawTransaction \<Rightarrow> pylib" where
  "sdk_lib raw = example_lib\<lparr> aptos_sdk_available := True, deserialize := (\<lambda>bs. Inr raw) \<rparr>"

definition example_transfer :: "string \<Rightarrow> int \<Rightarrow> int option \<Rightarrow> RawTransaction" where
  "example_transfer recipient amount expiry =
     \<lparr> sender = ''0x1'',
       sequence_number = 0,
       expiration_timestamp_secs = expiry,
       payload = \<lparr> payload_value =
                    Some \<lparr> ef_function = Some ''0x1::coin::transfer'',
                           ef_arguments = Some [SStr recipient, SInt amount] \<rparr> \<rparr> \<rparr>"


definition example_requirements :: json where
  "example_requirements =
     to_dict (to_payment_requirements ''http://localhost/api/premium'' ''0xABC'' example_config)"

definition http_reply :: "int \<Rightarrow> string \<Rightarrow> exn + json \<Rightarrow> exn + http_response" where
  "http_reply code txt js =
     Inr \<lparr> http_status_code = code, http_text = txt, http_json = js \<rparr>"

definition example_world :: "int \<Rightarrow> (nat \<Rightarrow> exn + http_response) \<Rightarrow> world" where
  "example_world now replies =
     \<lparr> time_now = now,
       requests_post = (\<lambda>n url request_body. replies n),
       call_next = (\<lambda>req. Inr example_page) \<rparr>"

definition offline :: "nat \<Rightarrow> exn + http_response" where
  "offline n = Inl (RequestException ''Connection refused'')"

text \<open>
  Two calls of \<open>verify_payment\<close> with the same arguments, one after the other:
  the world of the second call may differ from that of the first (the clock has
  moved on, the network may answer otherwise), and its trace continues the first.
\<close>

definition verify_twice ::
  "pylib \<Rightarrow> world \<Rightarrow> world \<Rightarrow> FacilitatorService \<Rightarrow> json \<Rightarrow> json \<Rightarrow> json
     \<Rightarrow> json \<times> json" where
  "verify_twice L W1 W2 svc x402_version payment_payload payment_requirements =
     (case verify_payment L W1 svc [] x402_version payment_payload payment_requirements of
        (result1, evs1) \<Rightarrow>
          (case verify_payment L W2 svc evs1 x402_version payment_payload
                  payment_requirements of
             (result2, evs2) \<Rightarrow> (result1, result2)))"

text \<open>
  Answers of the network: a node whose simulation names the sender followed by a
  facilitator that declines with an empty error text; a facilitator that fails with
  a long plain-text body; one that fails with an empty JSON object.
\<close>

definition declining :: "nat \<Rightarrow> exn + http_response" where
  \<open>declining n =
     (if n = 0
      then http_reply 200 ''{"result": {"sender": "0x1"}}''
             (Inr (JObj [(''result'', JObj [(''sender'', JStr ''0x1'')])]))
      else http_reply 200 ''{"success": false, "error": ""}''
             (Inr (JObj [(''success'', JBool False), (''error'', JStr [])])))\<close>

definition long_failure :: "nat \<Rightarrow> exn + http_response" where
  "long_failure n =
     http_reply 500 (replicate 501 (CHR ''x''))
       (Inl (ValueError ''Expecting value: line 1 column 1 (char 0)''))"

definition empty_failure :: "nat \<Rightarrow> exn + http_response" where
  "empty_failure n = http_reply 400 ''{}'' (Inr (JObj []))"

text \<open>
  What the middleware reads off a settlement result: \<open>settle_result.get("success")\<close>
  is truthy, or it is falsy. On a result that is not a dictionary neither holds,
  since the lookup raises.
\<close>

definition reports_success :: "json \<Rightarrow> bool" where
  "reports_success settle_result =
     (case dict_get settle_result ''success'' JNull of
        Inr s \<Rightarrow> truthy s | Inl e \<Rightarrow> False)"

definition reports_failure :: "json \<Rightarrow> bool" where
  "reports_failure settle_result =
     (case dict_get settle_result ''success'' JNull of
        Inr s \<Rightarrow> \<not> truthy s | Inl e \<Rightarrow> False)"

text \<open>The events of one settle call of the middleware: the call and its one POST.\<close>

definition settle_attempt ::
  "X402PaywallMiddleware \<Rightarrow> json \<Rightarrow> json \<Rightarrow> json \<Rightarrow> event list" where
  "settle_attempt mw x402_version payment_data payment_requirements =
     [SettleCall,
      HttpPost (facilitator_url (facilitator_service mw) @ ''/settle'')
        (JObj [(''x402Version'', x402_version),
               (''paymentPayload'', payment_data),
               (''paymentRequirements'', payment_requirements)])]"






section \<open>Auxiliary facts\<close>

lemma should_skip_paths_iff:
  "should_skip_paths sps path \<longleftrightarrow> (\<exists>sp \<in> set sps. endswith path sp \<or> contains sp path)"
  by (induction sps) auto











lemma dispatch_skip:
  "should_skip_payment mw (req_path req) \<Longrightarrow> dispatch L W mw req = (call_next W req, [HandlerCall])"
  by (simp add: dispatch_def)


text \<open>
  The SDK verifier once the transaction is decoded and the requirements are read:
  the expiry block, then the payload block, then acceptance.
\<close>

lemma verify_with_aptos_sdk_decoded:
  assumes "deserialize L transaction_bytes = Inr raw"
      and "requirement_fields L payment_requirements = Inr (payto, required_amount, max_timeout)"
  shows "verify_with_aptos_sdk L current_time transaction_bytes payment_requirements =
           (case expiration_check (expiration_timestamp_secs raw) current_time max_timeout of
              Some rejection \<Rightarrow> rejection
            | None \<Rightarrow>
                (case transfer_check L (payload raw) payto required_amount of
                   Inl e \<Rightarrow> invalid_result (JStr (''SDK verification error: '' @ exn_str e))
                 | Inr (Some rejection) \<Rightarrow> rejection
                 | Inr None \<Rightarrow> valid_result (JStr (sender raw))))"
  using assms
  by (simp add: verify_with_aptos_sdk_def sdk_verify_body_def try_bind_def
           split: option.splits sum.splits)

lemma example_requirement_fields:
  "requirement_fields (sdk_lib raw) example_requirements = Inr (lower ''0xABC'', 100000000, 600)"
  by (simp add: requirement_fields_def example_requirements_def to_dict_def
        to_payment_requirements_def example_config_def try_bind_def sdk_lib_def example_lib_def)

lemma lower_0xABC: "lower ''0xABC'' = ''0xabc''"
  by (simp add: lower_def lower_char_def)

section \<open>Route lookup and the skip list\<close>



text \<open>
  Claim C7. A request whose path ends with, or contains, a configured skip path goes
  to the downstream handler and nowhere else: the result of \<open>dispatch\<close> is the
  handler's, and the trace holds the handler call only, whatever the registry says
  about the method and the path.
\<close>

theorem skip_list_forwards:
  assumes "skip_path \<in> set (skip_paths mw)"
      and "endswith (req_path req) skip_path \<or> contains skip_path (req_path req)"
  shows "dispatch L W mw req = (call_next W req, [HandlerCall])"
proof -
  have "should_skip_payment mw (req_path req)"
    using assms by (auto simp: should_skip_payment_def should_skip_paths_iff)
  then show ?thesis by (rule dispatch_skip)
qed

theorem skip_list_forwards_witness:
  "get_route_config example_middleware ''POST'' ''/a2a/.well-known/agent-card.json''
     = Some example_config
   \<and> dispatch example_lib (example_world 1000 offline) example_middleware
        (example_request ''POST'' ''/a2a/.well-known/agent-card.json''
           [''x-payment'' \<mapsto> example_header])
      = (Inr example_page, [HandlerCall])"
proof -
  have a: "''/.well-known/agent-card.json'' \<in> set (skip_paths example_middleware)"
    by (simp add: example_middleware_def init_skip_paths_def)
  have b: "endswith ''/a2a/.well-known/agent-card.json'' ''/.well-known/agent-card.json''"
    by (simp add: endswith_def)
  have c: "get_route_config example_middleware ''POST'' ''/a2a/.well-known/agent-card.json''
             = Some example_config"
    by (simp add: get_route_config_def example_middleware_def normalize_path_def
          rstrip_slash_def upper_def upper_char_def Let_def)
  from a b c
    skip_list_forwards [where skip_path = "''/.well-known/agent-card.json''"
      and mw = example_middleware and L = example_lib and W = "example_world 1000 offline"
      and req = "example_request ''POST'' ''/a2a/.well-known/agent-card.json''
                   [''x-payment'' \<mapsto> example_header]"]
  show ?thesis by (simp add: example_request_def example_world_def)
qed

section \<open>The challenge for a request without proof\<close>

text \<open>
  Claim C3, as stated, fails: a request whose method and path match a registered
  route and that carries no proof header is forwarded, not challenged, when
  its path is on the skip list. Here the registry holds \<open>GET /.well-known/agent.json\<close>
  and the handler's 200 comes back.
\<close>

theorem no_proof_challenge_counterexample:
  "get_route_config example_middleware ''GET'' ''/.well-known/agent.json'' = Some example_config
   \<and> req_headers (example_request ''GET'' ''/.well-known/agent.json'' Map.empty) ''x-payment''
       = None
   \<and> req_headers (example_request ''GET'' ''/.well-known/agent.json'' Map.empty) ''x-402''
       = None
   \<and> fst (dispatch example_lib (example_world 1000 offline) example_middleware
            (example_request ''GET'' ''/.well-known/agent.json'' Map.empty))
       = Inr example_page
   \<and> status_code example_page = 200"
proof -
  have a: "get_route_config example_middleware ''GET'' ''/.well-known/agent.json''
             = Some example_config"
    by (simp add: get_route_config_def example_middleware_def normalize_path_def
          rstrip_slash_def upper_def upper_char_def Let_def)
  have b: "should_skip_payment example_middleware ''/.well-known/agent.json''"
    by (simp add: should_skip_payment_def example_middleware_def init_skip_paths_def
          endswith_def)
  have c: "fst (dispatch example_lib (example_world 1000 offline) example_middleware
                 (example_request ''GET'' ''/.well-known/agent.json'' Map.empty))
             = Inr example_page"
    using b by (simp add: dispatch_def example_request_def example_world_def)
  show ?thesis
    using a c by (simp add: example_request_def example_page_def)
qed

text \<open>
  Claim C3, amended. For every request that is not on the skip list, whose route
  lookup finds a configuration and that carries neither \<open>X-PAYMENT\<close> nor \<open>X-402\<close>,
  \<open>dispatch\<close> answers 402 with the body \<open>{x402Version: 1, accepts: [r]}\<close> and no
  error field, calls nothing, and \<open>r.resource\<close> is the forwarded-proto scheme
  (default \<open>http\<close>), the host header (default \<open>localhost\<close>) and the path up to a
  question mark.
\<close>

theorem no_proof_challenge:
  assumes "\<not> should_skip_payment mw (req_path req)"
      and "get_route_config mw (req_method req) (req_path req) = Some route_config"
      and "req_headers req ''x-payment'' = None"
      and "req_headers req ''x-402'' = None"
  shows "dispatch L W mw req =
           (Inr \<lparr> status_code = 402,
                  content = JsonBody (JObj
                    [(''x402Version'', JInt 1),
                     (''accepts'', JList [to_dict (to_payment_requirements
                        (absolute_resource_url req) (mw_pay_to mw) route_config)])]),
                  resp_headers = Map.empty \<rparr>, [])
         \<and> dict_get (to_dict (to_payment_requirements
               (absolute_resource_url req) (mw_pay_to mw) route_config)) ''resource'' JNull
           = Inr (JStr ((case req_headers req ''x-forwarded-proto'' of
                           Some s \<Rightarrow> s | None \<Rightarrow> ''http'')
                        @ ''://''
                        @ (case req_headers req ''host'' of Some h \<Rightarrow> h | None \<Rightarrow> ''localhost'')
                        @ takeWhile (\<lambda>c. c \<noteq> CHR ''?'') (req_path req)))"
proof -
  have "payment_header req = None"
    using assms(3,4) by (simp add: payment_header_def)
  then have "dispatch L W mw req =
           (Inr (create_payment_required_response
                   (to_payment_requirements (absolute_resource_url req) (mw_pay_to mw)
                      route_config) None), [])"
    using assms(1,2) by (simp add: dispatch_def Let_def)
  moreover have "dict_get (to_dict (to_payment_requirements
               (absolute_resource_url req) (mw_pay_to mw) route_config)) ''resource'' JNull
           = Inr (JStr (absolute_resource_url req))"
    by (simp add: to_dict_def to_payment_requirements_def)
  ultimately show ?thesis
    by (simp add: create_payment_required_response_def absolute_resource_url_def Let_def)
qed

theorem no_proof_challenge_witness:
  "dispatch example_lib (example_world 1000 offline) example_middleware
     (example_request ''POST'' ''/api/premium'' [''host'' \<mapsto> ''api.example.org''])
   = (Inr \<lparr> status_code = 402,
            content = JsonBody (JObj
              [(''x402Version'', JInt 1),
               (''accepts'', JList [JObj
                  [(''scheme'', JStr ''exact''),
                   (''network'', JStr ''movement''),
                   (''maxAmountRequired'', JStr ''100000000''),
                   (''resource'', JStr ''http://api.example.org/api/premium''),
                   (''description'', JStr ''Premium Chat access''),
                   (''mimeType'', JStr ''application/json''),
                   (''payTo'', JStr ''0xabc''),
                   (''maxTimeoutSeconds'', JInt 600),
                   (''asset'', JStr ''0x1::aptos_coin::AptosCoin'')]])]),
            resp_headers = Map.empty \<rparr>, [])"
proof -
  have a: "\<not> should_skip_payment example_middleware ''/api/premium''"
    by (simp add: should_skip_payment_def example_middleware_def init_skip_paths_def
          endswith_def)
  have b: "get_route_config example_middleware ''POST'' ''/api/premium'' = Some example_config"
    by (simp add: get_route_config_def example_middleware_def normalize_path_def
          rstrip_slash_def upper_def upper_char_def Let_def)
  from a b
    no_proof_challenge [where mw = example_middleware and route_config = example_config
      and L = example_lib and W = "example_world 1000 offline"
      and req = "example_request ''POST'' ''/api/premium'' [''host'' \<mapsto> ''api.example.org'']"]
  show ?thesis
    by (simp add: example_request_def example_middleware_def example_config_def to_dict_def
          to_payment_requirements_def absolute_resource_url_def)
qed

section \<open>SDK verification: expiry, recipient and amount\<close>

















section \<open>Settlement results\<close>

lemma posts_made_settle_call: "posts_made (evs @ [SettleCall]) = posts_made evs"
  by (simp add: posts_made_def)

lemma settle_payment_result:
  "fst (settle_payment W svc evs x402_version (JObj pp) (JObj pr)) =
     (case try_bind (requests_post W (posts_made evs) (facilitator_url svc @ ''/settle'')
                       (JObj [(''x402Version'', x402_version),
                              (''paymentPayload'', JObj pp),
                              (''paymentRequirements'', JObj pr)]))
             settle_response of
        Inl e \<Rightarrow> settle_exception e
      | Inr r \<Rightarrow> r)"
  by (simp add: settle_payment_def Let_def try_bind_def posts_made_settle_call
           split: sum.splits)

text \<open>
  Claim C8, as stated, fails in two places. A non-200 answer whose body is not JSON
  gives \<open>HTTP <code>:\<close> followed by the first 500 characters of the body only
  (here the body has 501). A non-200 answer whose body is a JSON object with
  neither an \<open>error\<close> nor a \<open>message\<close> field gives \<open>Unknown error\<close>.
\<close>

theorem settle_result_cases_counterexample:
  "fst (settle_payment (example_world 1000 long_failure) example_service [] (JInt 1)
          (JObj [(''transaction'', JStr ''AA=='')]) (JObj []))
   = failure_result (JStr (''HTTP 500: '' @ replicate 500 (CHR ''x'')))
   \<and> ''HTTP 500: '' @ replicate 500 (CHR ''x'') \<noteq> ''HTTP 500: '' @ replicate 501 (CHR ''x'')
   \<and> fst (settle_payment (example_world 1000 empty_failure) example_service [] (JInt 1)
          (JObj [(''transaction'', JStr ''AA=='')]) (JObj []))
     = failure_result (JStr ''Unknown error'')"
proof -
  have code: "str_of_int 500 = ''500''"
    by code_simp
  have a: "fst (settle_payment (example_world 1000 long_failure) example_service [] (JInt 1)
                 (JObj [(''transaction'', JStr ''AA=='')]) (JObj []))
           = failure_result (JStr (''HTTP 500: '' @ replicate 500 (CHR ''x'')))"
    by (simp add: settle_payment_result example_world_def long_failure_def http_reply_def
          settle_response_def try_bind_def code)
  have b: "fst (settle_payment (example_world 1000 empty_failure) example_service [] (JInt 1)
                 (JObj [(''transaction'', JStr ''AA=='')]) (JObj []))
           = failure_result (JStr ''Unknown error'')"
    by (simp add: settle_payment_result example_world_def empty_failure_def http_reply_def
          settle_response_def try_bind_def)
  from a b show ?thesis by simp
qed

text \<open>
  Claim C8, amended. For a settle call with a payload and requirements that are
  dictionaries, and the answer to its one POST:
  a 200 whose body is JSON is returned as it is, and a 200 whose body is not JSON
  is reported like a raised exception;
  a non-200 whose body is a JSON object yields \<open>{success: false, error: e}\<close> with
  \<open>e\<close> the body's \<open>error\<close> field, else its \<open>message\<close> field, else
  \<open>Unknown error\<close>;
  any other non-200 yields \<open>HTTP <code>: <first 500 characters of the body>\<close>;
  a transport failure yields \<open>Facilitator request failed: <cause>\<close>, and any other
  exception \<open>Settlement failed: <cause>\<close>.
\<close>

theorem settle_result_cases:
  assumes "requests_post W (posts_made evs) (facilitator_url svc @ ''/settle'')
             (JObj [(''x402Version'', x402_version),
                    (''paymentPayload'', JObj pp),
                    (''paymentRequirements'', JObj pr)]) = outcome"
  shows "(\<forall>resp v. outcome = Inr resp \<and> http_status_code resp = 200 \<and> http_json resp = Inr v
            \<longrightarrow> fst (settle_payment W svc evs x402_version (JObj pp) (JObj pr)) = v)
       \<and> (\<forall>resp e. outcome = Inr resp \<and> http_status_code resp = 200 \<and> http_json resp = Inl e
            \<longrightarrow> fst (settle_payment W svc evs x402_version (JObj pp) (JObj pr))
                = settle_exception e)
       \<and> (\<forall>resp kvs. outcome = Inr resp \<and> http_status_code resp \<noteq> 200
                      \<and> http_json resp = Inr (JObj kvs)
            \<longrightarrow> fst (settle_payment W svc evs x402_version (JObj pp) (JObj pr))
                = failure_result
                    (case map_of kvs ''error'' of
                       Some e \<Rightarrow> e
                     | None \<Rightarrow> (case map_of kvs ''message'' of
                                  Some m \<Rightarrow> m | None \<Rightarrow> JStr ''Unknown error'')))
       \<and> (\<forall>resp. outcome = Inr resp \<and> http_status_code resp \<noteq> 200
                  \<and> (\<forall>kvs. http_json resp \<noteq> Inr (JObj kvs))
            \<longrightarrow> fst (settle_payment W svc evs x402_version (JObj pp) (JObj pr))
                = failure_result (JStr (''HTTP '' @ str_of_int (http_status_code resp) @ '': ''
                                        @ take 500 (http_text resp))))
       \<and> (\<forall>cause. outcome = Inl (RequestException cause)
            \<longrightarrow> fst (settle_payment W svc evs x402_version (JObj pp) (JObj pr))
                = failure_result (JStr (''Facilitator request failed: '' @ cause)))
       \<and> (\<forall>e. outcome = Inl e \<and> (\<forall>cause. e \<noteq> RequestException cause)
            \<longrightarrow> fst (settle_payment W svc evs x402_version (JObj pp) (JObj pr))
                = failure_result (JStr (''Settlement failed: '' @ exn_str e)))"
proof -
  have other: "settle_exception e = failure_result (JStr (''Settlement failed: '' @ exn_str e))"
    if "\<forall>cause. e \<noteq> RequestException cause" for e
    using that by (cases e) simp_all
  have ok: "settle_response resp = http_json resp" if "http_status_code resp = 200" for resp
    using that by (simp add: settle_response_def)
  have object: "settle_response resp =
      Inr (failure_result
             (case map_of kvs ''error'' of
                Some e \<Rightarrow> e
              | None \<Rightarrow> (case map_of kvs ''message'' of
                           Some m \<Rightarrow> m | None \<Rightarrow> JStr ''Unknown error'')))"
    if "http_status_code resp \<noteq> 200" and "http_json resp = Inr (JObj kvs)" for resp kvs
    using that by (simp add: settle_response_def try_bind_def split: option.splits)
  have no_object: "settle_response resp =
      Inr (failure_result (JStr (''HTTP '' @ str_of_int (http_status_code resp) @ '': ''
                                 @ take 500 (http_text resp))))"
    if "http_status_code resp \<noteq> 200" and "\<forall>kvs. http_json resp \<noteq> Inr (JObj kvs)" for resp
  proof (cases "http_json resp")
    case (Inl e)
    with that(1) show ?thesis by (simp add: settle_response_def try_bind_def)
  next
    case (Inr v)
    with that show ?thesis by (cases v) (simp_all add: settle_response_def try_bind_def)
  qed
  have result: "fst (settle_payment W svc evs x402_version (JObj pp) (JObj pr)) =
                  (case outcome of
                     Inl e \<Rightarrow> settle_exception e
                   | Inr resp \<Rightarrow>
                       (case settle_response resp of
                          Inl e \<Rightarrow> settle_exception e | Inr r \<Rightarrow> r))"
    unfolding settle_payment_result assms by (simp add: try_bind_def split: sum.splits)
  show ?thesis
    unfolding result
    by (intro conjI allI impI) (auto simp: ok object no_object other)
qed

theorem settle_result_cases_witness:
  "fst (settle_payment (example_world 1000 offline) example_service [] (JInt 1)
          (JObj [(''transaction'', JStr ''AA=='')]) (JObj []))
   = failure_result (JStr ''Facilitator request failed: Connection refused'')
   \<and> fst (settle_payment (example_world 1000 empty_failure) example_service [] (JInt 1)
          (JObj [(''transaction'', JStr ''AA=='')]) (JObj []))
     = failure_result (JStr ''Unknown error'')
   \<and> fst (settle_payment (example_world 1000 declining) example_service [HttpPost [] JNull]
          (JInt 1) (JObj [(''transaction'', JStr ''AA=='')]) (JObj []))
     = JObj [(''success'', JBool False), (''error'', JStr [])]"
proof -
  have a: "requests_post (example_world 1000 offline) (posts_made [])
             (facilitator_url example_service @ ''/settle'')
             (JObj [(''x402Version'', JInt 1),
                    (''paymentPayload'', JObj [(''transaction'', JStr ''AA=='')]),
                    (''paymentRequirements'', JObj [])])
           = Inl (RequestException ''Connection refused'')"
    by (simp add: example_world_def offline_def)
  have b: "requests_post (example_world 1000 empty_failure) (posts_made [])
             (facilitator_url example_service @ ''/settle'')
             (JObj [(''x402Version'', JInt 1),
                    (''paymentPayload'', JObj [(''transaction'', JStr ''AA=='')]),
                    (''paymentRequirements'', JObj [])])
           = Inr \<lparr> http_status_code = 400, http_text = ''{}'', http_json = Inr (JObj []) \<rparr>"
    by (simp add: example_world_def empty_failure_def http_reply_def)
  have c: \<open>requests_post (example_world 1000 declining) (posts_made [HttpPost [] JNull])
             (facilitator_url example_service @ ''/settle'')
             (JObj [(''x402Version'', JInt 1),
                    (''paymentPayload'', JObj [(''transaction'', JStr ''AA=='')]),
                    (''paymentRequirements'', JObj [])])
           = Inr \<lparr> http_status_code = 200, http_text = ''{"success": false, "error": ""}'',
                   http_json = Inr (JObj [(''success'', JBool False), (''error'', JStr [])]) \<rparr>\<close>
    by (simp add: example_world_def declining_def http_reply_def posts_made_def)
  from settle_result_cases [OF a] settle_result_cases [OF b] settle_result_cases [OF c]
  show ?thesis by simp
qed

section \<open>Verification and the clock\<close>

lemma verify_payment_sdk:
  assumes "aptos_sdk_available L"
  shows "fst (verify_payment L W svc evs x402_version payment_payload payment_requirements) =
           (case py_or (dict_get payment_payload ''transaction'' JNull)
                       (dict_get payment_payload ''transactionBcsBase64'' JNull) of
              Inl e \<Rightarrow> invalid_result (JStr (''Verification failed: '' @ exn_str e))
            | Inr transaction_bcs \<Rightarrow>
                if \<not> truthy transaction_bcs
                then invalid_result (JStr ''Transaction not found in payment payload'')
                else (case py_b64decode L transaction_bcs of
                        Inl e \<Rightarrow> invalid_result (JStr (''Verification error: '' @ exn_str e))
                      | Inr transaction_bytes \<Rightarrow>
                          verify_with_aptos_sdk L (time_now W) transaction_bytes
                            payment_requirements))"
  using assms
  by (simp add: verify_payment_def verify_transaction_on_chain_def Let_def split: sum.splits)

lemma verify_with_aptos_sdk_no_timestamp:
  assumes "\<forall>raw. deserialize L transaction_bytes = Inr raw
                 \<longrightarrow> expiration_timestamp_secs raw = None"
  shows "verify_with_aptos_sdk L t1 transaction_bytes payment_requirements
         = verify_with_aptos_sdk L t2 transaction_bytes payment_requirements"
proof (cases "deserialize L transaction_bytes")
  case (Inl e)
  then show ?thesis
    by (simp add: verify_with_aptos_sdk_def sdk_verify_body_def try_bind_def)
next
  case (Inr raw)
  with assms have "expiration_timestamp_secs raw = None" by simp
  with Inr show ?thesis
    by (simp add: verify_with_aptos_sdk_def sdk_verify_body_def try_bind_def
          expiration_check_def split: sum.splits prod.splits)
qed

text \<open>
  Claim C9, as stated, fails: verification reads the clock. The same payload and
  requirements, verified at 1000 and again at 1001 for a transfer that expires at
  1000, are accepted the first time and rejected the second.
\<close>

theorem verify_idempotent_counterexample:
  "verify_twice (sdk_lib (example_transfer ''0xabc'' 100000000 (Some 1000)))
     (example_world 1000 offline) (example_world 1001 offline) example_service (JInt 1)
     (JObj [(''transaction'', JStr ''AA=='')]) example_requirements
   = (valid_result (JStr ''0x1''), invalid_result (JStr ''Transaction has expired''))"
proof -
  let ?raw = "example_transfer ''0xabc'' 100000000 (Some 1000)"
  have sdk: "aptos_sdk_available (sdk_lib ?raw)"
    by (simp add: sdk_lib_def)
  have d: "deserialize (sdk_lib ?raw) [CHR 0x00] = Inr ?raw"
    by (simp add: sdk_lib_def)
  have b64: "b64decode (sdk_lib ?raw) ''AA=='' = Inr [CHR 0x00]"
    by (simp add: sdk_lib_def example_lib_def example_header_def)
  have t: "transfer_check (sdk_lib ?raw) (payload ?raw) (lower ''0xABC'') 100000000 = Inr None"
    by (simp add: transfer_check_def example_transfer_def is_coin_transfer_def try_bind_def
          lower_def lower_char_def)
  have v1: "verify_with_aptos_sdk (sdk_lib ?raw) 1000 [CHR 0x00] example_requirements
            = valid_result (JStr ''0x1'')"
    using verify_with_aptos_sdk_decoded [OF d example_requirement_fields, of 1000] t
    by (simp add: expiration_check_def example_transfer_def)
  have v2: "verify_with_aptos_sdk (sdk_lib ?raw) 1001 [CHR 0x00] example_requirements
            = invalid_result (JStr ''Transaction has expired'')"
    using verify_with_aptos_sdk_decoded [OF d example_requirement_fields, of 1001]
    by (simp add: expiration_check_def example_transfer_def)
  have r: "fst (verify_payment (sdk_lib ?raw) (example_world now offline) example_service evs
                  (JInt 1) (JObj [(''transaction'', JStr ''AA=='')]) example_requirements)
           = verify_with_aptos_sdk (sdk_lib ?raw) now [CHR 0x00] example_requirements"
    for now evs
    by (simp add: verify_payment_sdk [OF sdk] py_or_def try_bind_def b64 example_world_def)
  show ?thesis
    using r [of 1000 "[]"] r [of 1001] v1 v2
    by (simp add: verify_twice_def split: prod.splits) (metis fst_conv)
qed

lemma verify_payment_rpc:
  assumes "\<not> aptos_sdk_available L"
  shows "verify_payment L W svc evs x402_version payment_payload payment_requirements =
           (case py_or (dict_get payment_payload ''transaction'' JNull)
                       (dict_get payment_payload ''transactionBcsBase64'' JNull) of
              Inl e \<Rightarrow>
                (invalid_result (JStr (''Verification failed: '' @ exn_str e)),
                 evs @ [VerifyCall])
            | Inr transaction_bcs \<Rightarrow>
                if \<not> truthy transaction_bcs
                then (invalid_result (JStr ''Transaction not found in payment payload''),
                      evs @ [VerifyCall])
                else (case py_b64decode L transaction_bcs of
                        Inl e \<Rightarrow>
                          (invalid_result (JStr (''Verification error: '' @ exn_str e)),
                           evs @ [VerifyCall])
                      | Inr transaction_bytes \<Rightarrow>
                          (case verify_with_rpc W svc (evs @ [VerifyCall]) transaction_bytes
                                  payment_requirements of
                             (Inl e, evs1) \<Rightarrow>
                               (invalid_result (JStr (''Verification error: '' @ exn_str e)),
                                evs1)
                           | (Inr r, evs1) \<Rightarrow> (r, evs1))))"
  using assms
  by (simp add: verify_payment_def verify_transaction_on_chain_def Let_def split: sum.splits)

lemma verify_with_rpc_posts:
  "posts_made (snd (verify_with_rpc W svc evs transaction_bytes payment_requirements))
   = Suc (posts_made evs)"
  by (simp add: verify_with_rpc_def simulate_transaction_def Let_def posts_made_def
           split: sum.splits prod.splits)

lemma verify_with_rpc_same:
  assumes "\<forall>url request_body.
             requests_post W2 (posts_made evs2) url request_body
             = requests_post W1 (posts_made evs1) url request_body"
  shows "fst (verify_with_rpc W1 svc evs1 transaction_bytes payment_requirements)
         = fst (verify_with_rpc W2 svc evs2 transaction_bytes payment_requirements)"
  using assms
  by (simp add: verify_with_rpc_def simulate_transaction_def Let_def
           split: sum.splits prod.splits)

text \<open>
  Claim C9, amended. Two calls of verify with the same payload and requirements
  give the same result whenever both read the same clock value, or no transaction
  that the SDK decodes exposes an expiration timestamp, and, on the RPC fallback
  path, the node answers the second simulation as it answered the first. What the
  handler does and what was called before play no part. The service object is an
  argument only: verification returns no new one.
\<close>

theorem verify_idempotent:
  assumes "time_now W1 = time_now W2 \<or>
           (\<forall>transaction_bytes raw. deserialize L transaction_bytes = Inr raw
                \<longrightarrow> expiration_timestamp_secs raw = None)"
      and "aptos_sdk_available L \<or>
           (\<forall>url request_body.
               requests_post W2 1 url request_body = requests_post W1 0 url request_body)"
  shows "fst (verify_twice L W1 W2 svc x402_version payment_payload payment_requirements)
         = snd (verify_twice L W1 W2 svc x402_version payment_payload payment_requirements)"
proof (cases "aptos_sdk_available L")
  case True
  have same: "verify_with_aptos_sdk L (time_now W1) bs payment_requirements
              = verify_with_aptos_sdk L (time_now W2) bs payment_requirements" for bs
    using assms(1)
  proof
    assume "time_now W1 = time_now W2"
    then show ?thesis by simp
  next
    assume "\<forall>transaction_bytes raw. deserialize L transaction_bytes = Inr raw
                \<longrightarrow> expiration_timestamp_secs raw = None"
    then show ?thesis by (intro verify_with_aptos_sdk_no_timestamp) simp
  qed
  have "fst (verify_payment L W1 svc evs1 x402_version payment_payload payment_requirements)
        = fst (verify_payment L W2 svc evs2 x402_version payment_payload payment_requirements)"
    for evs1 evs2
    by (simp add: verify_payment_sdk [OF True] same split: sum.splits)
  then show ?thesis
    by (simp add: verify_twice_def split: prod.splits) (metis fst_conv)
next
  case False
  with assms(2) have node:
    "\<forall>url request_body.
        requests_post W2 1 url request_body = requests_post W1 0 url request_body"
    by simp
  have rpc: "fst (verify_with_rpc W1 svc [VerifyCall] bs payment_requirements)
             = fst (verify_with_rpc W2 svc
                      (snd (verify_with_rpc W1 svc [VerifyCall] bs payment_requirements)
                       @ [VerifyCall]) bs payment_requirements)" for bs
  proof (rule verify_with_rpc_same)
    have "posts_made (snd (verify_with_rpc W1 svc [VerifyCall] bs payment_requirements)
                      @ [VerifyCall]) = 1"
      using verify_with_rpc_posts [of W1 svc "[VerifyCall]" bs payment_requirements]
      by (simp add: posts_made_def)
    moreover have "posts_made [VerifyCall] = 0"
      by (simp add: posts_made_def)
    ultimately show "\<forall>url request_body.
        requests_post W2
          (posts_made (snd (verify_with_rpc W1 svc [VerifyCall] bs payment_requirements)
                       @ [VerifyCall])) url request_body
        = requests_post W1 (posts_made [VerifyCall]) url request_body"
      using node by simp
  qed
  show ?thesis
  proof (cases "py_or (dict_get payment_payload ''transaction'' JNull)
                  (dict_get payment_payload ''transactionBcsBase64'' JNull)")
    case (Inl e)
    then show ?thesis
      by (simp add: verify_twice_def verify_payment_rpc [OF False])
  next
    case (Inr transaction_bcs)
    show ?thesis
    proof (cases "truthy transaction_bcs")
      case no: False
      with Inr show ?thesis
        by (simp add: verify_twice_def verify_payment_rpc [OF False])
    next
      case yes: True
      show ?thesis
      proof (cases "py_b64decode L transaction_bcs")
        case (Inl e)
        with Inr yes show ?thesis
          by (simp add: verify_twice_def verify_payment_rpc [OF False])
      next
        case decoded: (Inr bs)
        obtain o1 e1 where r1:
          "verify_with_rpc W1 svc [VerifyCall] bs payment_requirements = (o1, e1)"
          by (cases "verify_with_rpc W1 svc [VerifyCall] bs payment_requirements")
        obtain o2 e2 where r2:
          "verify_with_rpc W2 svc (e1 @ [VerifyCall]) bs payment_requirements = (o2, e2)"
          by (cases "verify_with_rpc W2 svc (e1 @ [VerifyCall]) bs payment_requirements")
        from rpc [of bs] r1 r2 have "o1 = o2"
          by simp
        with Inr yes decoded r1 r2 show ?thesis
          by (simp add: verify_twice_def verify_payment_rpc [OF False] split: sum.splits)
      qed
    qed
  qed
qed

theorem verify_idempotent_witness:
  "fst (verify_twice (sdk_lib (example_transfer ''0xabc'' 100000000 (Some 1000)))
          (example_world 1000 offline) (example_world 1000 declining) example_service (JInt 1)
          (JObj [(''transaction'', JStr ''AA=='')]) example_requirements)
   = snd (verify_twice (sdk_lib (example_transfer ''0xabc'' 100000000 (Some 1000)))
          (example_world 1000 offline) (example_world 1000 declining) example_service (JInt 1)
          (JObj [(''transaction'', JStr ''AA=='')]) example_requirements)"
proof -
  let ?L = "sdk_lib (example_transfer ''0xabc'' 100000000 (Some 1000))"
  have a: "time_now (example_world 1000 offline) = time_now (example_world 1000 declining) \<or>
           (\<forall>transaction_bytes raw. deserialize ?L transaction_bytes = Inr raw
               \<longrightarrow> expiration_timestamp_secs raw = None)"
    by (simp add: example_world_def)
  have b: "aptos_sdk_available ?L \<or>
           (\<forall>url request_body.
               requests_post (example_world 1000 declining) 1 url request_body
               = requests_post (example_world 1000 offline) 0 url request_body)"
    by (simp add: sdk_lib_def)
  from verify_idempotent [OF a b] show ?thesis .
qed

section \<open>Settlement attempts\<close>

lemma to_dict_obj: "\<exists>kvs. to_dict r = JObj kvs"
  by (simp add: to_dict_def)

lemma settle_payment_trace:
  "snd (settle_payment W svc evs x402_version (JObj pp) (JObj pr)) =
     evs @ [SettleCall,
            HttpPost (facilitator_url svc @ ''/settle'')
              (JObj [(''x402Version'', x402_version),
                     (''paymentPayload'', JObj pp),
                     (''paymentRequirements'', JObj pr)])]"
  by (simp add: settle_payment_def Let_def try_bind_def split: sum.splits)

lemma extract_payment_data_obj:
  "extract_payment_data payment_payload = Inr (x402_version, payment_data)
   \<Longrightarrow> \<exists>kvs. payment_data = JObj kvs"
  by (cases payment_data)
     (auto simp: extract_payment_data_def try_bind_def split: sum.splits)

lemma verify_payment_no_settle:
  "SettleCall \<notin> set (snd (verify_payment L W svc [] x402_version payment_data
                              payment_requirements))"
  by (auto simp: verify_payment_def verify_transaction_on_chain_def verify_with_rpc_def
        simulate_transaction_def Let_def split: sum.splits prod.splits)

lemma settle_and_forward_trace:
  "snd (settle_and_forward L W mw req requirements evs x402_version (JObj pd)) =
     evs @ settle_attempt mw x402_version (JObj pd) (to_dict requirements)
     @ (if reports_failure (fst (settle_payment W (facilitator_service mw) evs x402_version
                                   (JObj pd) (to_dict requirements)))
        then Sleep 1 # settle_attempt mw x402_version (JObj pd) (to_dict requirements)
             @ (if reports_success
                     (fst (settle_payment W (facilitator_service mw)
                             (evs @ settle_attempt mw x402_version (JObj pd) (to_dict requirements)
                              @ [Sleep 1])
                             x402_version (JObj pd) (to_dict requirements)))
                then [HandlerCall] else [])
        else (if reports_success (fst (settle_payment W (facilitator_service mw) evs
                                         x402_version (JObj pd) (to_dict requirements)))
              then [HandlerCall] else []))"
proof -
  obtain pr where pr: "to_dict requirements = JObj pr"
    using to_dict_obj by blast
  let ?svc = "facilitator_service mw"
  let ?a = "settle_attempt mw x402_version (JObj pd) (JObj pr)"
  define r1 where "r1 = fst (settle_payment W ?svc evs x402_version (JObj pd) (JObj pr))"
  define r2 where
    "r2 = fst (settle_payment W ?svc (evs @ ?a @ [Sleep 1]) x402_version (JObj pd) (JObj pr))"
  have s1: "settle_payment W ?svc evs x402_version (JObj pd) (JObj pr) = (r1, evs @ ?a)"
    by (simp add: r1_def prod_eq_iff settle_payment_trace settle_attempt_def)
  have s2: "settle_payment W ?svc (evs @ ?a @ [Sleep 1]) x402_version (JObj pd) (JObj pr)
              = (r2, evs @ ?a @ [Sleep 1] @ ?a)"
    by (simp add: r2_def prod_eq_iff settle_payment_trace settle_attempt_def)
  have "snd (settle_and_forward L W mw req requirements evs x402_version (JObj pd)) =
          evs @ ?a
          @ (if reports_failure r1
             then Sleep 1 # ?a @ (if reports_success r2 then [HandlerCall] else [])
             else (if reports_success r1 then [HandlerCall] else []))"
    unfolding settle_and_forward_def pr s1
    by (cases "dict_get r1 ''success'' JNull"; cases "dict_get r2 ''success'' JNull")
       (simp_all add: s2 reports_failure_def reports_success_def forward_with_receipt_def
          split: sum.splits)
  then show ?thesis
    by (simp add: pr r1_def r2_def)
qed

lemma dispatch_try_trace:
  "snd (dispatch_try L W mw req requirements x_payment_header) = []
   \<or> (\<exists>evs. SettleCall \<notin> set evs
          \<and> (snd (dispatch_try L W mw req requirements x_payment_header) = evs
              \<or> (\<exists>x402_version pd.
                    snd (dispatch_try L W mw req requirements x_payment_header)
                    = snd (settle_and_forward L W mw req requirements evs x402_version
                             (JObj pd)))))"
proof (cases "try_bind (decode_payment_header L x_payment_header) extract_payment_data")
  case (Inl e)
  then show ?thesis by (simp add: dispatch_try_def)
next
  case (Inr vp)
  obtain x402_version payment_data where vp: "vp = (x402_version, payment_data)"
    by (cases vp)
  from Inr vp have "\<exists>pp. extract_payment_data pp = Inr (x402_version, payment_data)"
    by (auto simp: try_bind_def split: sum.splits)
  then obtain pd where pd: "payment_data = JObj pd"
    using extract_payment_data_obj by blast
  obtain verify_result evs where
    v: "verify_payment L W (facilitator_service mw) [] x402_version payment_data
          (to_dict requirements) = (verify_result, evs)"
    by (cases "verify_payment L W (facilitator_service mw) [] x402_version payment_data
                 (to_dict requirements)")
  have no: "SettleCall \<notin> set evs"
    using verify_payment_no_settle [of L W "facilitator_service mw" x402_version payment_data
            "to_dict requirements"] v
    by simp
  have "snd (dispatch_try L W mw req requirements x_payment_header) = evs
        \<or> snd (dispatch_try L W mw req requirements x_payment_header)
          = snd (settle_and_forward L W mw req requirements evs x402_version (JObj pd))"
    using Inr vp v pd
    by (simp add: dispatch_try_def split: sum.splits)
  with no show ?thesis by blast
qed

lemma dispatch_trace:
  "snd (dispatch L W mw req) = []
   \<or> snd (dispatch L W mw req) = [HandlerCall]
   \<or> (\<exists>evs. SettleCall \<notin> set evs
          \<and> (snd (dispatch L W mw req) = evs
              \<or> (\<exists>requirements x402_version pd.
                    snd (dispatch L W mw req)
                    = snd (settle_and_forward L W mw req requirements evs x402_version
                             (JObj pd)))))"
proof -
  have try_case: ?thesis
    if "snd (dispatch L W mw req) = snd (dispatch_try L W mw req requirements h)"
    for requirements h
    using dispatch_try_trace [of L W mw req requirements h] that
    by metis
  show ?thesis
  proof (cases "should_skip_payment mw (req_path req)")
    case True
    then show ?thesis by (simp add: dispatch_def)
  next
    case False
    show ?thesis
    proof (cases "get_route_config mw (req_method req) (req_path req)")
      case None
      with False show ?thesis by (simp add: dispatch_def)
    next
      case (Some route_config)
      show ?thesis
      proof (cases "payment_header req")
        case None
        with False Some show ?thesis by (simp add: dispatch_def Let_def)
      next
        case (Some h)
        show ?thesis
        proof (cases "h = []")
          case True
          with False \<open>get_route_config mw (req_method req) (req_path req) = Some route_config\<close>
            Some
          show ?thesis by (simp add: dispatch_def Let_def)
        next
          case nonempty: False
          have "snd (dispatch L W mw req)
                = snd (dispatch_try L W mw req
                         (to_payment_requirements (absolute_resource_url req) (mw_pay_to mw)
                            route_config) h)"
            using False \<open>get_route_config mw (req_method req) (req_path req) = Some route_config\<close>
              Some nonempty
            by (simp add: dispatch_def Let_def split: prod.splits sum.splits)
          then show ?thesis by (rule try_case)
        qed
      qed
    qed
  qed
qed

lemma filter_dropWhile_settle:
  "filter (\<lambda>ev. ev = SettleCall) evs
   = filter (\<lambda>ev. ev = SettleCall) (dropWhile (\<lambda>ev. ev \<noteq> SettleCall) evs)"
  by (induction evs) simp_all

lemma dropWhile_no_settle:
  "SettleCall \<notin> set evs \<Longrightarrow>
   dropWhile (\<lambda>ev. ev \<noteq> SettleCall) (evs @ rest) = dropWhile (\<lambda>ev. ev \<noteq> SettleCall) rest"
  by (induction evs) auto

text \<open>
  Claim C4. From the first settle call on, the trace of \<open>dispatch\<close> is one settle
  call with its one POST, or two of them with a sleep of 1 in between, followed at
  most by the handler call: so settle is invoked at most twice and each call posts
  exactly once. The retry is made exactly when the first result's \<open>success\<close> is
  falsy, and the handler runs exactly when the last result's \<open>success\<close> is truthy.
\<close>

theorem settle_at_most_twice:
  "(\<exists>attempt tail.
      (\<exists>url request_body. attempt = [SettleCall, HttpPost url request_body])
      \<and> (tail = [] \<or> tail = [HandlerCall])
      \<and> (dropWhile (\<lambda>ev. ev \<noteq> SettleCall) (snd (dispatch L W mw req)) = []
         \<or> dropWhile (\<lambda>ev. ev \<noteq> SettleCall) (snd (dispatch L W mw req)) = attempt @ tail
         \<or> dropWhile (\<lambda>ev. ev \<noteq> SettleCall) (snd (dispatch L W mw req))
           = attempt @ [Sleep 1] @ attempt @ tail))
   \<and> length (filter (\<lambda>ev. ev = SettleCall) (snd (dispatch L W mw req))) \<le> 2
   \<and> snd (settle_and_forward L W mw req requirements evs x402_version (JObj pd)) =
       evs @ settle_attempt mw x402_version (JObj pd) (to_dict requirements)
       @ (if reports_failure (fst (settle_payment W (facilitator_service mw) evs x402_version
                                     (JObj pd) (to_dict requirements)))
          then Sleep 1 # settle_attempt mw x402_version (JObj pd) (to_dict requirements)
               @ (if reports_success
                       (fst (settle_payment W (facilitator_service mw)
                               (evs @ settle_attempt mw x402_version (JObj pd)
                                        (to_dict requirements)
                                @ [Sleep 1])
                               x402_version (JObj pd) (to_dict requirements)))
                  then [HandlerCall] else [])
          else (if reports_success (fst (settle_payment W (facilitator_service mw) evs
                                           x402_version (JObj pd) (to_dict requirements)))
                then [HandlerCall] else []))"
proof -
  let ?drop = "dropWhile (\<lambda>ev. ev \<noteq> SettleCall) (snd (dispatch L W mw req))"
  have shape: "\<exists>attempt tail.
      (\<exists>url request_body. attempt = [SettleCall, HttpPost url request_body])
      \<and> (tail = [] \<or> tail = [HandlerCall])
      \<and> (?drop = [] \<or> ?drop = attempt @ tail \<or> ?drop = attempt @ [Sleep 1] @ attempt @ tail)"
  proof -
    have none: ?thesis if "?drop = []"
      using that by (intro exI [of _ "[SettleCall, HttpPost [] JNull]"] exI [of _ "[]"]) simp
    from dispatch_trace [of L W mw req]
    consider "snd (dispatch L W mw req) = []"
      | "snd (dispatch L W mw req) = [HandlerCall]"
      | evs where "SettleCall \<notin> set evs" "snd (dispatch L W mw req) = evs"
      | evs r v p where "SettleCall \<notin> set evs"
          "snd (dispatch L W mw req) = snd (settle_and_forward L W mw req r evs v (JObj p))"
      by blast
    then show ?thesis
    proof cases
      case 1
      then show ?thesis by (intro none) simp
    next
      case 2
      then show ?thesis by (intro none) simp
    next
      case 3
      then have "?drop = []"
        using dropWhile_no_settle [of evs "[]"] by simp
      then show ?thesis by (rule none)
    next
      case 4
      let ?a = "settle_attempt mw v (JObj p) (to_dict r)"
      obtain rest where rest:
        "snd (dispatch L W mw req) = evs @ ?a @ rest"
        "rest = [] \<or> rest = [HandlerCall] \<or> rest = Sleep 1 # ?a
         \<or> rest = Sleep 1 # ?a @ [HandlerCall]"
        using 4(2) settle_and_forward_trace [of L W mw req r evs v p]
        by (auto split: if_splits)
      have "?drop = ?a @ rest"
        using rest(1) dropWhile_no_settle [OF 4(1), of "?a @ rest"]
        by (simp add: settle_attempt_def)
      with rest(2) show ?thesis
        by (intro exI [of _ ?a]
              exI [of _ "if rest = [] \<or> rest = Sleep 1 # ?a then [] else [HandlerCall]"])
           (auto simp: settle_attempt_def)
    qed
  qed
  have count: "length (filter (\<lambda>ev. ev = SettleCall) (snd (dispatch L W mw req))) \<le> 2"
  proof -
    define dropped where "dropped = ?drop"
    from shape obtain attempt tail url request_body where
      "attempt = [SettleCall, HttpPost url request_body]"
      "tail = [] \<or> tail = [HandlerCall]"
      "dropped = [] \<or> dropped = attempt @ tail \<or> dropped = attempt @ [Sleep 1] @ attempt @ tail"
      unfolding dropped_def by blast
    then have "length (filter (\<lambda>ev. ev = SettleCall) dropped) \<le> 2"
      by auto
    then show ?thesis
      unfolding dropped_def by (subst filter_dropWhile_settle)
  qed
  from shape count settle_and_forward_trace [of L W mw req requirements evs x402_version pd]
  show ?thesis by blast
qed

section \<open>Failures of the payment pipeline\<close>


















end
